theory Spec2Isabelle
  imports Main
begin

section \<open>Exceptions and values\<close>

text \<open>
  The Python exceptions that the modelled code can raise. \<open>ValueError\<close> is what
  \<^verbatim>\<open>list.remove\<close>, \<^verbatim>\<open>int\<close> and a failed tuple unpacking raise; \<open>TypeError\<close> is what a
  call raises that gives a parameter two values, and, with \<open>ValueError\<close>, what the checks of
  \<^verbatim>\<open>connect\<close> raise; \<open>IndexError\<close> is an out-of-range subscript; \<open>OtherError\<close> stands for
  any other exception of a callback or of the event socket, named by its text.
\<close>

datatype exn = ValueError | TypeError | IndexError | OtherError string

text \<open>The values that the watch loop passes to observers: a string, an integer or \<^verbatim>\<open>None\<close>.\<close>

datatype pyval = PyStr string | PyInt int | PyNone

text \<open>
  A keyword-argument bag (\<^verbatim>\<open>**kwargs\<close>) is a list of keywords with their values, in call
  order, of type \<open>(string \<times> 'v) list\<close>; the bags of the watch loop hold values of type
  \<open>pyval\<close>.
\<close>

section \<open>Signals (signals.py)\<close>

text \<open>
  \<^verbatim>\<open>class Signal\<close>: the list \<^verbatim>\<open>_observers\<close> and the \<^verbatim>\<open>_sender\<close>. A callback is a handle
  of type \<open>'c\<close>, compared the way \<^verbatim>\<open>list.remove\<close> compares callables (\<^verbatim>\<open>==\<close>); the sender
  is an opaque handle of type \<open>'s\<close>.
\<close>

record ('c, 's) Signal =
  observers :: "'c list"
  sender :: 's

text \<open>\<^verbatim>\<open>Signal.__init__(self, sender)\<close>.\<close>

definition Signal_init :: "'s \<Rightarrow> ('c, 's) Signal" where
  "Signal_init s = \<lparr>observers = [], sender = s\<rparr>"

text \<open>
  The state that running code acts on. \<open>signals\<close> is the store of the signal objects, by
  reference \<open>'a\<close>: a signal is shared between the code that emits it and the callbacks, which
  may connect and disconnect observers at any time, also while the signal is being emitted.
  \<open>world\<close> is whatever else the callbacks read and write. \<open>calls\<close> is the log of the calls
  of callbacks made so far, oldest first, each with the callback, the positional argument and
  the keyword bag of the call.

  The behaviour of the callables is a parameter \<open>run\<close>: \<open>run c s k sigs w\<close> is the store and
  the world after the body of \<open>c\<close> has run with the arguments \<open>s\<close> and \<open>k\<close>, started in the
  store \<open>sigs\<close> and the world \<open>w\<close>, with the exception it raised, if any.
\<close>

record ('a, 'c, 's, 'v, 'w) effects =
  calls :: "('c \<times> 's \<times> (string \<times> 'v) list) list"
  signals :: "'a \<Rightarrow> ('c, 's) Signal"
  world :: 'w

type_synonym ('a, 'c, 's, 'v, 'w) behaviour =
  "'c \<Rightarrow> 's \<Rightarrow> (string \<times> 'v) list \<Rightarrow> ('a \<Rightarrow> ('c, 's) Signal) \<Rightarrow> 'w
    \<Rightarrow> (('a \<Rightarrow> ('c, 's) Signal) \<times> 'w) \<times> exn option"

text \<open>
  One call \<^verbatim>\<open>callback(self._sender, **kwargs)\<close>. The call is logged. The first parameter
  of a callback that \<^verbatim>\<open>connect\<close> has let in is named \<^verbatim>\<open>sender\<close> and takes the positional
  argument, so that a bag with the keyword \<^verbatim>\<open>sender\<close> gives it a second value: the call
  raises \<open>TypeError\<close> and the body of the callback does not run.
\<close>

definition invoke ::
  "('a, 'c, 's, 'v, 'w) behaviour \<Rightarrow> 'c \<Rightarrow> 's \<Rightarrow> (string \<times> 'v) list \<Rightarrow> ('a, 'c, 's, 'v, 'w) effects
    \<Rightarrow> ('a, 'c, 's, 'v, 'w) effects \<times> exn option" where
  "invoke run c s k st =
     (if ''sender'' \<in> set (map fst k) then
        (\<lparr>calls = calls st @ [(c, s, k)], signals = signals st, world = world st\<rparr>, Some TypeError)
      else
        (case run c s k (signals st) (world st) of
           ((sigs', w'), r) \<Rightarrow> (\<lparr>calls = calls st @ [(c, s, k)], signals = sigs', world = w'\<rparr>, r)))"

text \<open>
  The loop of \<^verbatim>\<open>emit\<close>, \<^verbatim>\<open>for callback in self._observers: callback(self._sender, **kwargs)\<close>,
  on the signal with reference \<open>a\<close>. The iterator of a Python list keeps an index \<open>i\<close> into
  the list itself, not a copy: each turn reads the list as it is then, ends the loop when
  \<open>i\<close> is no longer below its length, and otherwise takes the item at \<open>i\<close> and moves on to
  \<open>i + 1\<close>. An exception of a call leaves the loop at once: nothing in \<^verbatim>\<open>emit\<close> catches it.
  The loop need not end (a callback may connect another at every call): the result is
  \<open>None\<close> then.
\<close>

partial_function (option) emit_loop ::
  "('a, 'c, 's, 'v, 'w) behaviour \<Rightarrow> 'a \<Rightarrow> (string \<times> 'v) list \<Rightarrow> nat \<Rightarrow> ('a, 'c, 's, 'v, 'w) effects
    \<Rightarrow> (('a, 'c, 's, 'v, 'w) effects \<times> exn option) option" where
  "emit_loop run a k i st =
     (if i < length (observers (signals st a)) then
        (case invoke run (observers (signals st a) ! i) (sender (signals st a)) k st of
           (st', Some e) \<Rightarrow> Some (st', Some e)
         | (st', None) \<Rightarrow> emit_loop run a k (Suc i) st')
      else Some (st, None))"

text \<open>
  \<^verbatim>\<open>Signal.emit(self, **kwargs)\<close> on the signal with reference \<open>a\<close>. The signal itself is
  the parameter \<^verbatim>\<open>self\<close>, so that a bag with the keyword \<^verbatim>\<open>self\<close> gives it a second value:
  the call of \<^verbatim>\<open>emit\<close> raises \<open>TypeError\<close> before its body runs.
\<close>

definition emit ::
  "('a, 'c, 's, 'v, 'w) behaviour \<Rightarrow> 'a \<Rightarrow> (string \<times> 'v) list \<Rightarrow> ('a, 'c, 's, 'v, 'w) effects
    \<Rightarrow> (('a, 'c, 's, 'v, 'w) effects \<times> exn option) option" where
  "emit run a k st =
     (if ''self'' \<in> set (map fst k) then Some (st, Some TypeError)
      else emit_loop run a k 0 st)"

text \<open>
  How far the loop of an \<^verbatim>\<open>emit\<close> that started in \<open>st\<close> has come: \<open>emit_reaches run a k st i st1\<close>
  when \<^verbatim>\<open>emit\<close> has entered its loop and the first \<open>i\<close> calls have returned, leaving the
  state \<open>st1\<close>.
\<close>

inductive emit_reaches ::
  "('a, 'c, 's, 'v, 'w) behaviour \<Rightarrow> 'a \<Rightarrow> (string \<times> 'v) list \<Rightarrow> ('a, 'c, 's, 'v, 'w) effects
    \<Rightarrow> nat \<Rightarrow> ('a, 'c, 's, 'v, 'w) effects \<Rightarrow> bool"
  for run a k st where
  entered: "''self'' \<notin> set (map fst k) \<Longrightarrow> emit_reaches run a k st 0 st"
| returned: "emit_reaches run a k st i st1 \<Longrightarrow> i < length (observers (signals st1 a)) \<Longrightarrow>
     invoke run (observers (signals st1 a) ! i) (sender (signals st1 a)) k st1 = (st2, None) \<Longrightarrow>
     emit_reaches run a k st (Suc i) st2"

text \<open>
  \<^verbatim>\<open>Signal.connect(self, callback)\<close>. The two checks are functions of the module
  \<^verbatim>\<open>assertions\<close>, which is not among the sources; they are parameters here, each giving the
  exception it raises for a callback, if any.
\<close>

definition connect ::
  "('c \<Rightarrow> exn option) \<Rightarrow> ('c \<Rightarrow> exn option) \<Rightarrow> ('c, 's) Signal \<Rightarrow> 'c \<Rightarrow> exn + ('c, 's) Signal" where
  "connect has_first_param_sender accepts_kwargs sg callback =
     (case has_first_param_sender callback of
        Some e \<Rightarrow> Inl e
      | None \<Rightarrow>
          (case accepts_kwargs callback of
             Some e \<Rightarrow> Inl e
           | None \<Rightarrow> Inr (sg\<lparr>observers := observers sg @ [callback]\<rparr>)))"

text \<open>A sequence of \<^verbatim>\<open>connect\<close> calls on one signal, stopped by the first that raises.\<close>

fun connect_all ::
  "('c \<Rightarrow> exn option) \<Rightarrow> ('c \<Rightarrow> exn option) \<Rightarrow> ('c, 's) Signal \<Rightarrow> 'c list \<Rightarrow> exn + ('c, 's) Signal" where
  "connect_all p q sg [] = Inr sg"
| "connect_all p q sg (c # cs) =
     (case connect p q sg c of Inl e \<Rightarrow> Inl e | Inr sg' \<Rightarrow> connect_all p q sg' cs)"

text \<open>
  \<^verbatim>\<open>list.remove(x)\<close>: the first item equal to \<open>x\<close> is taken out; \<open>ValueError\<close> when there
  is none.
\<close>

fun list_remove :: "'a \<Rightarrow> 'a list \<Rightarrow> exn + 'a list" where
  "list_remove x [] = Inl ValueError"
| "list_remove x (y # ys) =
     (if y = x then Inr ys
      else (case list_remove x ys of Inl e \<Rightarrow> Inl e | Inr zs \<Rightarrow> Inr (y # zs)))"

text \<open>\<^verbatim>\<open>Signal.disconnect(self, callback)\<close>: \<^verbatim>\<open>self._observers.remove(callback)\<close>.\<close>

definition disconnect :: "('c, 's) Signal \<Rightarrow> 'c \<Rightarrow> exn + ('c, 's) Signal" where
  "disconnect sg callback =
     (case list_remove callback (observers sg) of
        Inl e \<Rightarrow> Inl e
      | Inr obs \<Rightarrow> Inr (sg\<lparr>observers := obs\<rparr>))"


section \<open>Strings\<close>

text \<open>
  A \<open>char\<close> stands for one code point below 256 of a Python string; text beyond that range
  is outside the model.

  \<open>find_sub sep s\<close> finds the leftmost occurrence of \<open>sep\<close> in \<open>s\<close> and gives what is
  before it and what is after it.
\<close>

fun find_sub :: "string \<Rightarrow> string \<Rightarrow> (string \<times> string) option" where
  "find_sub sep [] = None"
| "find_sub sep (c # cs) =
     (if take (length sep) (c # cs) = sep then Some ([], drop (length sep) (c # cs))
      else (case find_sub sep cs of None \<Rightarrow> None | Some (a, b) \<Rightarrow> Some (c # a, b)))"

text \<open>
  \<^verbatim>\<open>s.split(sep, maxsplit)\<close> for a separator that is given: at most \<open>maxsplit\<close> splits, from
  the left, and no limit when \<open>maxsplit\<close> is negative (Python's default is -1). Python raises
  \<open>ValueError\<close> for an empty separator; every call of the source passes a non-empty
  constant, and the model leaves the string whole there.
\<close>

function py_split :: "string \<Rightarrow> string \<Rightarrow> int \<Rightarrow> string list" where
  "py_split s sep maxsplit =
     (if sep = [] \<or> maxsplit = 0 then [s]
      else (case find_sub sep s of
              None \<Rightarrow> [s]
            | Some (a, b) \<Rightarrow> a # py_split b sep (maxsplit - 1)))"
  by pat_completeness auto
termination
proof (relation "measure (\<lambda>(s, sep, maxsplit). length s)")
  have shorter: "length b < length s" if "sep \<noteq> []" "find_sub sep s = Some (a, b)"
    for sep s a b
    using that by (induction s arbitrary: a) (auto split: if_splits option.splits)
  fix s sep :: string and maxsplit :: int and x2 a b
  assume "\<not> (sep = [] \<or> maxsplit = 0)" "find_sub sep s = Some x2" "(a, b) = x2"
  then show "((b, sep, maxsplit - 1), s, sep, maxsplit) \<in> measure (\<lambda>(s, sep, maxsplit). length s)"
    using shorter [of sep s a b] by simp
qed simp

declare py_split.simps [simp del]

text \<open>
  \<^verbatim>\<open>int(s)\<close> on a string, base 10: white space around the number is dropped, one sign may
  come first, then decimal digits, where single underscores may stand between two digits.
  Anything else is a \<open>ValueError\<close>. The white space below 256 is what CPython strips here:
  tab to carriage return, the space, and in non-ASCII text U+0085 and U+00A0.

  CPython refuses, with \<open>ValueError\<close>, a string with more digits than the interpreter's
  limit \<^verbatim>\<open>sys.get_int_max_str_digits()\<close>, which is the parameter \<open>max_str_digits\<close>: 4300
  unless the process has changed it, and 0 for no limit (the interpreter lets it be 0 or at
  least 640). The sign, the white space and the underscores do not count.
\<close>

definition is_space :: "char \<Rightarrow> bool" where
  "is_space c = (let n = (of_char c :: nat) in (9 \<le> n \<and> n \<le> 13) \<or> n = 32 \<or> n = 133 \<or> n = 160)"

definition is_digit :: "char \<Rightarrow> bool" where
  "is_digit c = (let n = (of_char c :: nat) in 48 \<le> n \<and> n \<le> 57)"

definition digit_val :: "char \<Rightarrow> int" where
  "digit_val c = int (of_char c) - 48"

definition strip :: "string \<Rightarrow> string" where
  "strip s = rev (dropWhile is_space (rev (dropWhile is_space s)))"

fun digits :: "int \<Rightarrow> string \<Rightarrow> int option" where
  "digits acc [] = None"
| "digits acc (c # cs) =
     (if is_digit c then
        (case cs of
           [] \<Rightarrow> Some (10 * acc + digit_val c)
         | d # ds \<Rightarrow>
             if d = CHR ''_'' then digits (10 * acc + digit_val c) ds
             else digits (10 * acc + digit_val c) cs)
      else None)"

definition py_int :: "nat \<Rightarrow> string \<Rightarrow> exn + int" where
  "py_int max_str_digits s =
     (case strip s of
        [] \<Rightarrow> Inl ValueError
      | c # cs \<Rightarrow>
          (let body = (if c = CHR ''-'' \<or> c = CHR ''+'' then cs else c # cs) in
           if 0 < max_str_digits \<and> max_str_digits < length (filter is_digit body)
           then Inl ValueError
           else (case digits 0 body of
                   None \<Rightarrow> Inl ValueError
                 | Some n \<Rightarrow> Inr (if c = CHR ''-'' then - n else n))))"

section \<open>The event handler of \<^verbatim>\<open>Instance.watch\<close> (instances.py)\<close>

text \<open>
  Modelled from the spec: the class \<^verbatim>\<open>DeprecatedSignal\<close>, of which \<^verbatim>\<open>Instance.__init__\<close>
  creates the six signals below, is in a module that is not among the sources. It is taken
  to be the \<^verbatim>\<open>Signal\<close> of signals.py (the spec's 4.1: an ordered list of observers, notified
  in order by \<^verbatim>\<open>emit\<close>), so that \<^verbatim>\<open>signal._observers\<close> and \<^verbatim>\<open>signal.emit\<close> in the handler
  are those of \<^verbatim>\<open>Signal\<close>. An \<^verbatim>\<open>Instance\<close> holds the references of its signals; the objects
  are in the store \<open>signals\<close>.
\<close>

record 'a Instance =
  signal_workspace_created :: 'a
  signal_workspace_destroyed :: 'a
  signal_active_workspace_changed :: 'a
  signal_window_created :: 'a
  signal_window_destroyed :: 'a
  signal_active_window_changed :: 'a

text \<open>The dictionary \<^verbatim>\<open>signal_for_event\<close>, in the order it is written.\<close>

definition signal_for_event :: "'a Instance \<Rightarrow> (string \<times> 'a) list" where
  "signal_for_event inst =
     [(''openwindow'', signal_window_created inst),
      (''closewindow'', signal_window_destroyed inst),
      (''activewindowv2'', signal_active_window_changed inst),
      (''createworkspace'', signal_workspace_created inst),
      (''destroyworkspace'', signal_workspace_destroyed inst),
      (''workspace'', signal_active_workspace_changed inst)]"

text \<open>
  The expression \<^verbatim>\<open>(int(event_data) if event_data != 'special' else -99)\<close>, which the
  three workspace branches share.
\<close>

definition workspace_id :: "nat \<Rightarrow> string \<Rightarrow> exn + int" where
  "workspace_id max_str_digits event_data =
     (if event_data \<noteq> ''special'' then py_int max_str_digits event_data else Inr (- 99))"

text \<open>
  The body of the loop \<^verbatim>\<open>for line in lines\<close>. The unpacking
  \<^verbatim>\<open>event_name, event_data = line.split('>>', maxsplit=1)\<close> raises \<open>ValueError\<close> unless
  the split gives two parts. A \<^verbatim>\<open>continue\<close> is the result \<open>Some (st, None)\<close>; the arguments
  of \<^verbatim>\<open>emit\<close> are evaluated before the call, so that a failing \<^verbatim>\<open>int\<close> leaves \<open>st\<close> as it
  is. \<^verbatim>\<open>signal._observers\<close> is read in the store as it is when the line is handled.
\<close>

definition handle_line ::
  "nat \<Rightarrow> ('a, 'c, 's, pyval, 'w) behaviour \<Rightarrow> 'a Instance \<Rightarrow> string \<Rightarrow> ('a, 'c, 's, pyval, 'w) effects
    \<Rightarrow> (('a, 'c, 's, pyval, 'w) effects \<times> exn option) option" where
  "handle_line max_str_digits run inst line st =
     (case py_split line ''>>'' 1 of
        [event_name, event_data] \<Rightarrow>
          (case map_of (signal_for_event inst) event_name of
             None \<Rightarrow> Some (st, None)
           | Some signal \<Rightarrow>
               if observers (signals st signal) = [] then Some (st, None)
               else if event_name = ''openwindow'' then
                 (case py_split event_data '','' (- 1) of
                    [] \<Rightarrow> Some (st, Some IndexError)
                  | address # _ \<Rightarrow> emit run signal [(''created_window_address'', PyStr address)] st)
               else if event_name = ''closewindow'' then
                 emit run signal [(''destroyed_window_address'', PyStr event_data)] st
               else if event_name = ''activewindowv2'' then
                 emit run signal
                   [(''active_window_address'', if event_data = '','' then PyNone else PyStr event_data)] st
               else if event_name = ''createworkspace'' then
                 (case workspace_id max_str_digits event_data of
                    Inl e \<Rightarrow> Some (st, Some e)
                  | Inr n \<Rightarrow> emit run signal [(''created_workspace_id'', PyInt n)] st)
               else if event_name = ''destroyworkspace'' then
                 (case workspace_id max_str_digits event_data of
                    Inl e \<Rightarrow> Some (st, Some e)
                  | Inr n \<Rightarrow> emit run signal [(''destroyed_workspace_id'', PyInt n)] st)
               else if event_name = ''workspace'' then
                 (case workspace_id max_str_digits event_data of
                    Inl e \<Rightarrow> Some (st, Some e)
                  | Inr n \<Rightarrow> emit run signal [(''active_workspace_id'', PyInt n)] st)
               else Some (st, None))
      | _ \<Rightarrow> Some (st, Some ValueError))"

text \<open>
  The loop \<^verbatim>\<open>for line in lines\<close>: an exception of one line ends it, and it does not
  return when the handling of a line does not.
\<close>

fun handle_lines ::
  "nat \<Rightarrow> ('a, 'c, 's, pyval, 'w) behaviour \<Rightarrow> 'a Instance \<Rightarrow> string list
    \<Rightarrow> ('a, 'c, 's, pyval, 'w) effects \<Rightarrow> (('a, 'c, 's, pyval, 'w) effects \<times> exn option) option" where
  "handle_lines m run inst [] st = Some (st, None)"
| "handle_lines m run inst (line # lines) st =
     (case handle_line m run inst line st of
        None \<Rightarrow> None
      | Some (st', Some e) \<Rightarrow> Some (st', Some e)
      | Some (st', None) \<Rightarrow> handle_lines m run inst lines st')"

text \<open>
  \<^verbatim>\<open>lines = list(filter(lambda line: len(line) > 0, data.split('\n')))\<close>: the pieces of
  the chunk between line feeds that are not empty.
\<close>

definition lines_of :: "string \<Rightarrow> string list" where
  "lines_of data = filter (\<lambda>line. length line > 0) (py_split data ''\<newline>'' (- 1))"

text \<open>\<^verbatim>\<open>_handle_socket_data(data)\<close>.\<close>

definition handle_socket_data ::
  "nat \<Rightarrow> ('a, 'c, 's, pyval, 'w) behaviour \<Rightarrow> 'a Instance \<Rightarrow> string \<Rightarrow> ('a, 'c, 's, pyval, 'w) effects
    \<Rightarrow> (('a, 'c, 's, pyval, 'w) effects \<times> exn option) option" where
  "handle_socket_data m run inst data st = handle_lines m run inst (lines_of data) st"

section \<open>The watch loop (instances.py)\<close>

text \<open>
  The event socket \<^verbatim>\<open>self.event_socket\<close> is an \<^verbatim>\<open>EventSocket\<close>, a class of a module that
  is not among the sources. Its four methods are parameters: each takes the state \<open>'k\<close> of
  the socket and of its peer to the next state, with the exception it raised, if any;
  \<^verbatim>\<open>read\<close> gives the text it returns.
\<close>

record 'k EventSocket =
  connect_op :: "'k \<Rightarrow> 'k \<times> exn option"
  wait_op :: "'k \<Rightarrow> 'k \<times> exn option"
  read_op :: "'k \<Rightarrow> 'k \<times> (exn + string)"
  close_op :: "'k \<Rightarrow> 'k \<times> exn option"

datatype sock_call = Connect | Wait | Read | Close

text \<open>
  The state of a run of \<^verbatim>\<open>watch\<close>: the state that the handler and the callbacks act on, the
  state of the socket, and the log of the calls made to the socket, oldest first.
\<close>

record ('a, 'c, 's, 'w, 'k) process =
  fx :: "('a, 'c, 's, pyval, 'w) effects"
  sock :: 'k
  sock_calls :: "sock_call list"

definition socket_connect ::
  "'k EventSocket \<Rightarrow> ('a, 'c, 's, 'w, 'k) process \<Rightarrow> ('a, 'c, 's, 'w, 'k) process \<times> exn option" where
  "socket_connect es p =
     (case connect_op es (sock p) of
        (k', r) \<Rightarrow> (p\<lparr>sock := k', sock_calls := sock_calls p @ [Connect]\<rparr>, r))"

definition socket_wait ::
  "'k EventSocket \<Rightarrow> ('a, 'c, 's, 'w, 'k) process \<Rightarrow> ('a, 'c, 's, 'w, 'k) process \<times> exn option" where
  "socket_wait es p =
     (case wait_op es (sock p) of
        (k', r) \<Rightarrow> (p\<lparr>sock := k', sock_calls := sock_calls p @ [Wait]\<rparr>, r))"

definition socket_read ::
  "'k EventSocket \<Rightarrow> ('a, 'c, 's, 'w, 'k) process \<Rightarrow> ('a, 'c, 's, 'w, 'k) process \<times> (exn + string)" where
  "socket_read es p =
     (case read_op es (sock p) of
        (k', r) \<Rightarrow> (p\<lparr>sock := k', sock_calls := sock_calls p @ [Read]\<rparr>, r))"

definition socket_close ::
  "'k EventSocket \<Rightarrow> ('a, 'c, 's, 'w, 'k) process \<Rightarrow> ('a, 'c, 's, 'w, 'k) process \<times> exn option" where
  "socket_close es p =
     (case close_op es (sock p) of
        (k', r) \<Rightarrow> (p\<lparr>sock := k', sock_calls := sock_calls p @ [Close]\<rparr>, r))"

text \<open>
  One turn of \<^verbatim>\<open>while True\<close>: \<^verbatim>\<open>wait()\<close>, \<^verbatim>\<open>data = read()\<close>, \<^verbatim>\<open>_handle_socket_data(data)\<close>.
  An exception of any of the three ends the turn with it; the turn does not end when the
  handler does not return.
\<close>

definition watch_body ::
  "nat \<Rightarrow> 'k EventSocket \<Rightarrow> ('a, 'c, 's, pyval, 'w) behaviour \<Rightarrow> 'a Instance
    \<Rightarrow> ('a, 'c, 's, 'w, 'k) process \<Rightarrow> (('a, 'c, 's, 'w, 'k) process \<times> exn option) option" where
  "watch_body m es run inst p =
     (case socket_wait es p of
        (p1, Some e) \<Rightarrow> Some (p1, Some e)
      | (p1, None) \<Rightarrow>
          (case socket_read es p1 of
             (p2, Inl e) \<Rightarrow> Some (p2, Some e)
           | (p2, Inr data) \<Rightarrow>
               (case handle_socket_data m run inst data (fx p2) of
                  None \<Rightarrow> None
                | Some (h, r) \<Rightarrow> Some (p2\<lparr>fx := h\<rparr>, r))))"

text \<open>
  \<^verbatim>\<open>while True\<close>: the loop has no \<^verbatim>\<open>break\<close>; an exception is its only way out. It is
  \<open>Some\<close> of the state and the exception it left with, and \<open>None\<close> when it runs forever.
\<close>

partial_function (option) watch_loop ::
  "nat \<Rightarrow> 'k EventSocket \<Rightarrow> ('a, 'c, 's, pyval, 'w) behaviour \<Rightarrow> 'a Instance
    \<Rightarrow> ('a, 'c, 's, 'w, 'k) process \<Rightarrow> (('a, 'c, 's, 'w, 'k) process \<times> exn) option" where
  "watch_loop m es run inst p =
     (case watch_body m es run inst p of
        None \<Rightarrow> None
      | Some (p', Some e) \<Rightarrow> Some (p', e)
      | Some (p', None) \<Rightarrow> watch_loop m es run inst p')"

text \<open>
  \<^verbatim>\<open>Instance.watch\<close>: \<^verbatim>\<open>try: connect(); while True: ... finally: close()\<close>. The
  \<^verbatim>\<open>finally\<close> clause runs when the \<^verbatim>\<open>try\<close> block is left; an exception of \<^verbatim>\<open>close()\<close>
  takes the place of the one that was under way.
\<close>

definition watch ::
  "nat \<Rightarrow> 'k EventSocket \<Rightarrow> ('a, 'c, 's, pyval, 'w) behaviour \<Rightarrow> 'a Instance
    \<Rightarrow> ('a, 'c, 's, 'w, 'k) process \<Rightarrow> (('a, 'c, 's, 'w, 'k) process \<times> exn) option" where
  "watch m es run inst p =
     (case (case socket_connect es p of
              (p1, Some e) \<Rightarrow> Some (p1, e)
            | (p1, None) \<Rightarrow> watch_loop m es run inst p1) of
        None \<Rightarrow> None
      | Some (p2, e) \<Rightarrow>
          (case socket_close es p2 of
             (p3, Some e') \<Rightarrow> Some (p3, e')
           | (p3, None) \<Rightarrow> Some (p3, e)))"

section \<open>Decimal literals\<close>




section \<open>A small instance\<close>

text \<open>
  Callbacks named by numbers, signals with the references 0 to 5, the sender named by a
  string, and a world that counts the calls. \<open>quiet\<close> callbacks return and leave the signals
  alone; under \<open>faulty\<close>, callback 0 raises; a \<open>leaving\<close> callback disconnects itself from
  signal 0 when it is called, as a callback does that is to run once.
\<close>

definition quiet :: "(nat, nat, string, 'v, nat) behaviour" where
  "quiet c s k sigs w = ((sigs, Suc w), None)"

definition faulty :: "(nat, nat, string, 'v, nat) behaviour" where
  "faulty c s k sigs w = ((sigs, Suc w), if c = 0 then Some (OtherError ''boom'') else None)"

definition leaving :: "(nat, nat, string, 'v, nat) behaviour" where
  "leaving c s k sigs w =
     (case disconnect (sigs 0) c of
        Inl e \<Rightarrow> ((sigs, Suc w), Some e)
      | Inr sg \<Rightarrow> ((sigs(0 := sg), Suc w), None))"

text \<open>
  An instance whose signals for new windows and for the active workspace and window have
  observers, and whose other signals have none.
\<close>

definition inst1 :: "nat Instance" where
  "inst1 =
     \<lparr>signal_workspace_created = 0,
      signal_workspace_destroyed = 1,
      signal_active_workspace_changed = 2,
      signal_window_created = 3,
      signal_window_destroyed = 4,
      signal_active_window_changed = 5\<rparr>"

definition sigs1 :: "nat \<Rightarrow> (nat, string) Signal" where
  "sigs1 a =
     \<lparr>observers = (if a = 2 then [7] else if a = 3 then [1, 2] else if a = 5 then [5] else []),
      sender = ''hyprland''\<rparr>"

definition st0 :: "(nat, nat, string, 'v, nat) effects" where
  "st0 = \<lparr>calls = [], signals = sigs1, world = 0\<rparr>"

text \<open>The store in which every reference is to one signal with the observers \<open>cs\<close>.\<close>

definition one_signal :: "nat list \<Rightarrow> nat \<Rightarrow> (nat, string) Signal" where
  "one_signal cs a = \<lparr>observers = cs, sender = ''hyprland''\<rparr>"

definition only :: "nat list \<Rightarrow> (nat, nat, string, 'v, nat) effects" where
  "only cs = \<lparr>calls = [], signals = one_signal cs, world = 0\<rparr>"

text \<open>
  A socket whose state is the list of the chunks its peer still sends: \<^verbatim>\<open>read\<close> gives the
  next chunk, and \<^verbatim>\<open>wait\<close> raises once the peer has sent them all and has gone.
\<close>

definition script_socket :: "string list EventSocket" where
  "script_socket =
     \<lparr>connect_op = (\<lambda>k. (k, None)),
      wait_op = (\<lambda>k. (k, if k = [] then Some (OtherError ''closed'') else None)),
      read_op = (\<lambda>k. case k of [] \<Rightarrow> (k, Inl (OtherError ''closed'')) | d # ds \<Rightarrow> (ds, Inr d)),
      close_op = (\<lambda>k. (k, None))\<rparr>"

section \<open>Properties of the signals\<close>

lemma invoke_calls: "calls (fst (invoke run c s k st)) = calls st @ [(c, s, k)]"
  by (simp add: invoke_def split: prod.splits)

lemma emit_loop_done:
  "\<not> i < length (observers (signals st a)) \<Longrightarrow> emit_loop run a k i st = Some (st, None)"
  by (subst emit_loop.simps) simp

lemma emit_loop_raise:
  "i < length (observers (signals st a)) \<Longrightarrow>
   invoke run (observers (signals st a) ! i) (sender (signals st a)) k st = (st', Some e) \<Longrightarrow>
   emit_loop run a k i st = Some (st', Some e)"
  by (subst emit_loop.simps) simp

lemma emit_loop_next:
  "i < length (observers (signals st a)) \<Longrightarrow>
   invoke run (observers (signals st a) ! i) (sender (signals st a)) k st = (st', None) \<Longrightarrow>
   emit_loop run a k i st = emit_loop run a k (Suc i) st'"
  by (subst emit_loop.simps) simp

lemma emit_reaches_loop:
  "emit_reaches run a k st i st1 \<Longrightarrow> emit run a k st = emit_loop run a k i st1"
  by (induction rule: emit_reaches.induct) (simp_all add: emit_def emit_loop_next)

lemma emit_reaches_calls:
  "emit_reaches run a k st i st1 \<Longrightarrow> length (calls st1) = length (calls st) + i"
proof (induction rule: emit_reaches.induct)
  case entered
  show ?case by simp
next
  case (returned i st1 st2)
  from invoke_calls [of run "observers (signals st1 a) ! i" "sender (signals st1 a)" k st1]
    returned.hyps(3) have "calls st2 = calls st1 @ [(observers (signals st1 a) ! i, sender (signals st1 a), k)]"
    by simp
  with returned.IH show ?case by simp
qed

lemma emit_loop_quiet:
  assumes "''sender'' \<notin> set (map fst k)"
    and "\<forall>c\<in>set cs. \<forall>sigs w. snd (run c s k sigs w) = None \<and> fst (fst (run c s k sigs w)) a = sigs a"
  shows "observers (signals st a) = cs \<Longrightarrow> sender (signals st a) = s \<Longrightarrow> i \<le> length cs \<Longrightarrow>
    \<exists>st'. emit_loop run a k i st = Some (st', None) \<and>
          calls st' = calls st @ map (\<lambda>c. (c, s, k)) (drop i cs)"
proof (induction "length cs - i" arbitrary: i st)
  case 0
  then have "\<not> i < length (observers (signals st a))" by simp
  from emit_loop_done [OF this] 0 show ?case by simp
next
  case (Suc n)
  then have i: "i < length cs" by simp
  let ?c = "cs ! i"
  from i have mem: "?c \<in> set cs" by simp
  obtain sigs' w' r where run: "run ?c s k (signals st) (world st) = ((sigs', w'), r)"
    by (metis prod.collapse)
  from assms(2) mem have "snd (run ?c s k (signals st) (world st)) = None"
    and "fst (fst (run ?c s k (signals st) (world st))) a = signals st a" by blast+
  with run have r: "r = None" and frame: "sigs' a = signals st a" by simp_all
  let ?st1 = "\<lparr>calls = calls st @ [(?c, s, k)], signals = sigs', world = w'\<rparr>"
  have inv: "invoke run (observers (signals st a) ! i) (sender (signals st a)) k st = (?st1, None)"
    using assms(1) run r Suc.prems by (simp add: invoke_def)
  have "observers (signals ?st1 a) = cs" "sender (signals ?st1 a) = s"
    using frame Suc.prems by simp_all
  moreover have "n = length cs - Suc i" "Suc i \<le> length cs" using Suc.hyps(2) i by simp_all
  ultimately obtain st' where st': "emit_loop run a k (Suc i) ?st1 = Some (st', None)"
    "calls st' = calls ?st1 @ map (\<lambda>c. (c, s, k)) (drop (Suc i) cs)"
    using Suc.hyps(1) [of "Suc i" ?st1] by blast
  have "emit_loop run a k i st = emit_loop run a k (Suc i) ?st1"
    using emit_loop_next [OF _ inv] i Suc.prems by simp
  moreover have "drop i cs = ?c # drop (Suc i) cs" using i by (simp add: Cons_nth_drop_Suc)
  ultimately show ?case using st' by simp
qed

lemma connect_all_observers:
  "connect_all p q sg cs = Inr sg' \<Longrightarrow> observers sg' = observers sg @ cs \<and> sender sg' = sender sg"
  by (induction cs arbitrary: sg) (auto simp: connect_def split: option.splits sum.splits)







lemmas eval_emit = emit_def emit_loop.simps invoke_def

text \<open>
  Claim C1, as amended. Callbacks \<open>cs\<close> are connected, in this order, to a new signal with
  sender \<open>s\<close>, and every \<^verbatim>\<open>connect\<close> succeeds; then \<^verbatim>\<open>emit\<close> is called once on that signal
  with the bag \<open>k\<close>. When the bag has neither the keyword \<^verbatim>\<open>self\<close> nor the keyword
  \<^verbatim>\<open>sender\<close>, and every connected callback returns and leaves the signal as it is, \<^verbatim>\<open>emit\<close>
  returns, and the calls it has made are one call per connected occurrence, in the order of
  registration, each with the sender as first argument and with exactly \<open>k\<close>.
\<close>

theorem emit_invokes_each_connected_once:
  assumes "connect_all p q (Signal_init s) cs = Inr sg"
    and "signals st a = sg"
    and "''self'' \<notin> set (map fst k)"
    and "''sender'' \<notin> set (map fst k)"
    and "\<forall>c\<in>set cs. \<forall>sigs w. snd (run c s k sigs w) = None \<and> fst (fst (run c s k sigs w)) a = sigs a"
  shows "\<exists>st'. emit run a k st = Some (st', None) \<and> calls st' = calls st @ map (\<lambda>c. (c, s, k)) cs"
proof -
  from connect_all_observers [OF assms(1)] assms(2)
  have "observers (signals st a) = cs" "sender (signals st a) = s" by (simp_all add: Signal_init_def)
  from emit_loop_quiet [where run = run and k = k and s = s and cs = cs and a = a and st = st
      and i = 0, OF assms(4,5) this] assms(3) show ?thesis by (simp add: emit_def)
qed

theorem emit_invokes_each_connected_once_witness:
  "connect_all (\<lambda>c. None) (\<lambda>c. None) (Signal_init ''hyprland'') [1, 2, 1 :: nat]
     = Inr \<lparr>observers = [1, 2, 1], sender = ''hyprland''\<rparr> \<and>
   emit quiet 0 [(''info'', PyInt 3)] (only [1, 2, 1])
     = Some (\<lparr>calls = [(1, ''hyprland'', [(''info'', PyInt 3)]), (2, ''hyprland'', [(''info'', PyInt 3)]),
                      (1, ''hyprland'', [(''info'', PyInt 3)])],
              signals = one_signal [1, 2, 1], world = 3\<rparr>, None)"
proof -
  let ?k = "[(''info'', PyInt 3)]"
  have c: "connect_all (\<lambda>c. None) (\<lambda>c. None) (Signal_init ''hyprland'') [1, 2, 1 :: nat]
     = Inr \<lparr>observers = [1, 2, 1], sender = ''hyprland''\<rparr>"
    by (simp add: connect_def Signal_init_def)
  have s: "signals (only [1, 2, 1] :: (nat, nat, string, pyval, nat) effects) 0
     = \<lparr>observers = [1, 2, 1], sender = ''hyprland''\<rparr>"
    by (simp add: only_def one_signal_def)
  have k1: "''self'' \<notin> set (map fst ?k)" and k2: "''sender'' \<notin> set (map fst ?k)" by simp_all
  have q: "\<forall>c\<in>set [1, 2, 1 :: nat]. \<forall>sigs w. snd (quiet c ''hyprland'' ?k sigs w) = None \<and>
      fst (fst (quiet c ''hyprland'' ?k sigs w)) (0 :: nat) = sigs 0"
    by (simp add: quiet_def)
  from emit_invokes_each_connected_once [where run = quiet and k = ?k and a = 0
      and st = "only [1, 2, 1]", OF c s k1 k2 q]
  obtain st' where "emit quiet 0 ?k (only [1, 2, 1]) = Some (st', None)" by blast
  moreover have "emit quiet 0 ?k (only [1, 2, 1])
     = Some (\<lparr>calls = [(1, ''hyprland'', ?k), (2, ''hyprland'', ?k), (1, ''hyprland'', ?k)],
              signals = one_signal [1, 2, 1], world = 3\<rparr>, None)"
    by (simp add: eval_emit quiet_def only_def one_signal_def)
  ultimately show ?thesis using c by simp
qed

text \<open>
  Claim C1 as it is written fails. With the callbacks 1 and 2 connected in this order: when a
  callback disconnects itself as it is called, the loop, which reads the list itself, ends
  after the call of 1 and never calls 2, which is still connected; with the keyword
  \<^verbatim>\<open>self\<close> in the bag, \<^verbatim>\<open>emit\<close> raises \<open>TypeError\<close> and calls nothing; with the keyword
  \<^verbatim>\<open>sender\<close>, the first call raises \<open>TypeError\<close>. And when callback 0 raises, the callback
  connected after it is not called.
\<close>

theorem emit_skips_or_stops:
  "connect_all (\<lambda>c. None) (\<lambda>c. None) (Signal_init ''hyprland'') [1, 2 :: nat]
     = Inr (one_signal [1, 2] 0) \<and>
   emit leaving 0 [(''info'', PyNone)] (only [1, 2])
     = Some (\<lparr>calls = [(1, ''hyprland'', [(''info'', PyNone)])],
              signals = (one_signal [1, 2])(0 := \<lparr>observers = [2], sender = ''hyprland''\<rparr>),
              world = 1\<rparr>, None) \<and>
   emit quiet 0 [(''self'', PyNone)] (only [1, 2]) = Some (only [1, 2], Some TypeError) \<and>
   emit quiet 0 [(''sender'', PyNone)] (only [1, 2])
     = Some (\<lparr>calls = [(1, ''hyprland'', [(''sender'', PyNone)])],
              signals = one_signal [1, 2], world = 0\<rparr>, Some TypeError) \<and>
   emit faulty 0 [(''info'', PyNone)] (only [0, 4])
     = Some (\<lparr>calls = [(0, ''hyprland'', [(''info'', PyNone)])],
              signals = one_signal [0, 4], world = 1\<rparr>, Some (OtherError ''boom''))"
  by (simp add: eval_emit leaving_def quiet_def faulty_def only_def one_signal_def disconnect_def
      connect_def Signal_init_def)

text \<open>
  Claim C9. \<^verbatim>\<open>emit\<close> has entered its loop, the first \<open>i\<close> calls have returned, and the next
  call, of the observer at index \<open>i\<close> of the list as it is then, raises \<open>e\<close>. Then \<^verbatim>\<open>emit\<close>
  ends with \<open>e\<close> in the state that this call has left: the call is the last one in the
  log, which holds \<open>i + 1\<close> calls of this \<^verbatim>\<open>emit\<close>, so that no observer is called after it.
\<close>

theorem emit_fail_fast:
  assumes "emit_reaches run a k st i st1"
    and "i < length (observers (signals st1 a))"
    and "invoke run (observers (signals st1 a) ! i) (sender (signals st1 a)) k st1 = (st2, Some e)"
  shows "emit run a k st = Some (st2, Some e) \<and>
         calls st2 = calls st1 @ [(observers (signals st1 a) ! i, sender (signals st1 a), k)] \<and>
         length (calls st2) = length (calls st) + Suc i"
proof -
  have 1: "emit run a k st = Some (st2, Some e)"
    using emit_reaches_loop [OF assms(1)] emit_loop_raise [OF assms(2,3)] by simp
  have 2: "calls st2 = calls st1 @ [(observers (signals st1 a) ! i, sender (signals st1 a), k)]"
    using invoke_calls [of run "observers (signals st1 a) ! i" "sender (signals st1 a)" k st1] assms(3)
    by simp
  from 1 2 emit_reaches_calls [OF assms(1)] show ?thesis by simp
qed

theorem emit_fail_fast_witness:
  "emit faulty 0 [(''info'', PyNone)] (only [3, 0, 4])
     = Some (\<lparr>calls = [(3, ''hyprland'', [(''info'', PyNone)]), (0, ''hyprland'', [(''info'', PyNone)])],
              signals = one_signal [3, 0, 4], world = 2\<rparr>, Some (OtherError ''boom''))"
proof -
  let ?k = "[(''info'', PyNone)]"
  let ?st = "only [3, 0, 4] :: (nat, nat, string, pyval, nat) effects"
  let ?st1 = "\<lparr>calls = [(3, ''hyprland'', ?k)], signals = one_signal [3, 0, 4], world = 1\<rparr>
                :: (nat, nat, string, pyval, nat) effects"
  let ?st2 = "\<lparr>calls = [(3, ''hyprland'', ?k), (0, ''hyprland'', ?k)], signals = one_signal [3, 0, 4], world = 2\<rparr>
                :: (nat, nat, string, pyval, nat) effects"
  have e: "emit_reaches faulty 0 ?k ?st 0 ?st" by (rule emit_reaches.entered) simp
  have r: "emit_reaches faulty 0 ?k ?st (Suc 0) ?st1"
    by (rule emit_reaches.returned [OF e]) (simp_all add: invoke_def faulty_def only_def one_signal_def)
  have l: "Suc 0 < length (observers (signals ?st1 0))" by (simp add: only_def one_signal_def)
  have i: "invoke faulty (observers (signals ?st1 0) ! Suc 0) (sender (signals ?st1 0)) ?k ?st1
             = (?st2, Some (OtherError ''boom''))"
    by (simp add: invoke_def faulty_def only_def one_signal_def)
  from emit_fail_fast [OF r l i] show ?thesis by simp
qed



section \<open>Properties of the event handler\<close>

lemma split_activewindowv2:
  "py_split (''activewindowv2>>'' @ payload) ''>>'' 1 = [''activewindowv2'', payload]"
  by (simp add: py_split.simps)

lemma split_createworkspace:
  "py_split (''createworkspace>>'' @ payload) ''>>'' 1 = [''createworkspace'', payload]"
  by (simp add: py_split.simps)

lemma split_destroyworkspace:
  "py_split (''destroyworkspace>>'' @ payload) ''>>'' 1 = [''destroyworkspace'', payload]"
  by (simp add: py_split.simps)

lemma split_workspace:
  "py_split (''workspace>>'' @ payload) ''>>'' 1 = [''workspace'', payload]"
  by (simp add: py_split.simps)






lemma find_sub_None_iff:
  "sep \<noteq> [] \<Longrightarrow> (find_sub sep s = None) = (\<nexists>a b. s = a @ sep @ b)"
proof (induction s)
  case Nil
  then show ?case by simp
next
  case (Cons c cs)
  show ?case
  proof (cases "take (length sep) (c # cs) = sep")
    case True
    then have "c # cs = [] @ sep @ drop (length sep) (c # cs)"
      by (metis append_Nil append_take_drop_id)
    then have "\<exists>a b. c # cs = a @ sep @ b" by blast
    with True show ?thesis by simp
  next
    case False
    have "(\<exists>a b. c # cs = a @ sep @ b) = (\<exists>a b. cs = a @ sep @ b)"
    proof
      assume "\<exists>a b. c # cs = a @ sep @ b"
      then obtain a b where ab: "c # cs = a @ sep @ b" by blast
      show "\<exists>a b. cs = a @ sep @ b"
      proof (cases a)
        case Nil
        with ab have "take (length sep) (c # cs) = sep" by simp
        with False show ?thesis by simp
      next
        case (Cons x a')
        with ab have "cs = a' @ sep @ b" by simp
        then show ?thesis by blast
      qed
    next
      assume "\<exists>a b. cs = a @ sep @ b"
      then obtain a b where "cs = a @ sep @ b" by blast
      then have "c # cs = (c # a) @ sep @ b" by simp
      then show "\<exists>a b. c # cs = a @ sep @ b" by blast
    qed
    with False Cons show ?thesis by (auto split: option.splits)
  qed
qed

lemma split_unseparated:
  "\<nexists>a b. line = a @ ''>>'' @ b \<Longrightarrow> py_split line ''>>'' 1 = [line]"
  using find_sub_None_iff [of "''>>''" line] by (simp add: py_split.simps)














lemmas eval_int = py_int_def strip_def is_space_def is_digit_def digit_val_def workspace_id_def

lemmas eval_inst = quiet_def st0_def sigs1_def inst1_def signal_for_event_def

lemma handle_lines_append:
  "handle_lines m run inst (xs @ ys) st =
     (case handle_lines m run inst xs st of
        None \<Rightarrow> None
      | Some (st', Some e) \<Rightarrow> Some (st', Some e)
      | Some (st', None) \<Rightarrow> handle_lines m run inst ys st')"
  by (induction xs arbitrary: st) (auto split: prod.splits option.splits)


lemma watch_loop_exit:
  "watch_body m es run inst p = Some (p', Some e) \<Longrightarrow> watch_loop m es run inst p = Some (p', e)"
  by (subst watch_loop.simps) simp


text \<open>
  Claim C4. A line that splits at its first \<^verbatim>\<open>>>\<close> into a name and a payload, where the name
  is not a key of \<^verbatim>\<open>signal_for_event\<close>: handling it emits nothing and raises nothing, and the
  loop goes on with the lines that follow.
\<close>

theorem unknown_event_is_skipped:
  assumes "py_split line ''>>'' 1 = [event_name, event_data]"
    and "event_name \<notin> set (map fst (signal_for_event inst))"
  shows "handle_line m run inst line st = Some (st, None) \<and>
         handle_lines m run inst (line # lines) st = handle_lines m run inst lines st"
proof -
  from assms(2) have "map_of (signal_for_event inst) event_name = None"
    by (simp add: map_of_eq_None_iff)
  with assms(1) have "handle_line m run inst line st = Some (st, None)" by (simp add: handle_line_def)
  then show ?thesis by simp
qed

theorem unknown_event_is_skipped_witness:
  "handle_line 4300 quiet inst1 ''futureevent>>x,y'' st0 = Some (st0, None) \<and>
   handle_socket_data 4300 quiet inst1 ''futureevent>>x,y\<newline>workspace>>3\<newline>'' st0
     = Some (\<lparr>calls = [(7, ''hyprland'', [(''active_workspace_id'', PyInt 3)])], signals = sigs1,
              world = 1\<rparr>, None)"
proof -
  have s: "py_split ''futureevent>>x,y'' ''>>'' 1 = [''futureevent'', ''x,y'']"
    by (simp add: py_split.simps)
  have n: "''futureevent'' \<notin> set (map fst (signal_for_event inst1))"
    by (simp add: signal_for_event_def)
  have l: "lines_of ''futureevent>>x,y\<newline>workspace>>3\<newline>'' = [''futureevent>>x,y'', ''workspace>>3'']"
    by (simp add: lines_of_def py_split.simps)
  have r: "handle_lines 4300 quiet inst1 [''workspace>>3''] st0
     = Some (\<lparr>calls = [(7, ''hyprland'', [(''active_workspace_id'', PyInt 3)])], signals = sigs1,
              world = 1\<rparr>, None)"
    using split_workspace [of "''3''"] by (simp add: handle_line_def eval_int eval_emit eval_inst)
  from unknown_event_is_skipped [where run = quiet and inst = inst1 and st = st0 and m = 4300
      and lines = "[''workspace>>3'']", OF s n] l r
  show ?thesis by (simp add: handle_socket_data_def)
qed

text \<open>
  Claim C7. A line whose event name is bound to a signal that has no observer when the line
  is handled: the handler goes on to the next line at once; it emits nothing and it raises
  nothing, whatever the payload is, since the payload is not decoded.
\<close>

theorem unobserved_signal_skips_decoding:
  assumes "py_split line ''>>'' 1 = [event_name, event_data]"
    and "map_of (signal_for_event inst) event_name = Some signal"
    and "observers (signals st signal) = []"
  shows "handle_line m run inst line st = Some (st, None)"
  using assms by (simp add: handle_line_def)

theorem unobserved_signal_skips_decoding_witness:
  "workspace_id 4300 ''notanumber'' = Inl ValueError \<and>
   handle_line 4300 quiet inst1 ''createworkspace>>notanumber'' st0 = Some (st0, None)"
proof -
  have s: "py_split ''createworkspace>>notanumber'' ''>>'' 1 = [''createworkspace'', ''notanumber'']"
    by (simp add: py_split.simps)
  have m: "map_of (signal_for_event inst1) ''createworkspace'' = Some (signal_workspace_created inst1)"
    by (simp add: signal_for_event_def)
  have o: "observers (signals (st0 :: (nat, nat, string, pyval, nat) effects)
             (signal_workspace_created inst1)) = []"
    by (simp add: inst1_def st0_def sigs1_def)
  have w: "workspace_id 4300 ''notanumber'' = Inl ValueError" by (simp add: eval_int)
  from unobserved_signal_skips_decoding [where run = quiet and st = st0 and m = 4300, OF s m o] w
  show ?thesis by simp
qed

text \<open>
  Claim C10. For an \<^verbatim>\<open>activewindowv2\<close> line whose signal has an observer: the payload
  \<^verbatim>\<open>,\<close> is emitted as \<^verbatim>\<open>active_window_address=None\<close>, and any other payload is emitted
  as it is, as the string value of \<^verbatim>\<open>active_window_address\<close>.
\<close>

theorem active_window_address_none_or_verbatim:
  assumes "observers (signals st (signal_active_window_changed inst)) \<noteq> []"
  shows "handle_line m run inst ''activewindowv2>>,'' st
           = emit run (signal_active_window_changed inst) [(''active_window_address'', PyNone)] st \<and>
         (payload \<noteq> '','' \<longrightarrow>
            handle_line m run inst (''activewindowv2>>'' @ payload) st
              = emit run (signal_active_window_changed inst)
                  [(''active_window_address'', PyStr payload)] st)"
  using assms split_activewindowv2 [of "'',''"] split_activewindowv2 [of payload]
  by (simp add: handle_line_def signal_for_event_def)

theorem active_window_address_none_or_verbatim_witness:
  "handle_line 4300 quiet inst1 ''activewindowv2>>,'' st0
     = Some (\<lparr>calls = [(5, ''hyprland'', [(''active_window_address'', PyNone)])], signals = sigs1,
              world = 1\<rparr>, None) \<and>
   handle_line 4300 quiet inst1 ''activewindowv2>>55d0a1b2c3e0'' st0
     = Some (\<lparr>calls = [(5, ''hyprland'', [(''active_window_address'', PyStr ''55d0a1b2c3e0'')])],
              signals = sigs1, world = 1\<rparr>, None)"
proof -
  have o: "observers (signals (st0 :: (nat, nat, string, pyval, nat) effects)
             (signal_active_window_changed inst1)) \<noteq> []"
    by (simp add: inst1_def st0_def sigs1_def)
  have p: "''55d0a1b2c3e0'' \<noteq> '',''" by simp
  from active_window_address_none_or_verbatim [where inst = inst1 and run = quiet and st = st0
      and m = 4300 and payload = "''55d0a1b2c3e0''", OF o] p
  show ?thesis by (simp add: eval_emit eval_inst)
qed




text \<open>
  Claim C2, as amended. A malformed line is not skipped. A line with no \<^verbatim>\<open>>>\<close> in it, and a
  line of one of the three workspace events whose signal has an observer and whose payload is
  not \<^verbatim>\<open>special\<close> and is refused by \<^verbatim>\<open>int\<close>, make the handler raise \<open>ValueError\<close> at
  that line: the lines before it have been handled, the lines after it are not, and the
  exception leaves the loop of \<^verbatim>\<open>watch\<close>.
\<close>

theorem malformed_line_raises:
  assumes "handle_lines m run inst pre st = Some (st', None)"
    and "(\<nexists>a b. line = a @ ''>>'' @ b) \<or>
         (\<exists>event_name signal payload.
            (event_name, signal) \<in>
              {(''createworkspace'', signal_workspace_created inst),
               (''destroyworkspace'', signal_workspace_destroyed inst),
               (''workspace'', signal_active_workspace_changed inst)} \<and>
            line = event_name @ ''>>'' @ payload \<and> observers (signals st' signal) \<noteq> [] \<and>
            payload \<noteq> ''special'' \<and> py_int m payload = Inl ValueError)"
  shows "handle_lines m run inst (pre @ line # rest) st = Some (st', Some ValueError) \<and>
         (\<forall>es p p1 p2 data.
            socket_wait es p = (p1, None) \<and> socket_read es p1 = (p2, Inr data) \<and>
            fx p2 = st \<and> lines_of data = pre @ line # rest \<longrightarrow>
            watch_loop m es run inst p = Some (p2\<lparr>fx := st'\<rparr>, ValueError))"
proof -
  have line: "handle_line m run inst line st' = Some (st', Some ValueError)"
    using assms(2)
  proof
    assume "\<nexists>a b. line = a @ ''>>'' @ b"
    then show ?thesis by (simp add: handle_line_def split_unseparated)
  next
    assume "\<exists>event_name signal payload.
            (event_name, signal) \<in>
              {(''createworkspace'', signal_workspace_created inst),
               (''destroyworkspace'', signal_workspace_destroyed inst),
               (''workspace'', signal_active_workspace_changed inst)} \<and>
            line = event_name @ ''>>'' @ payload \<and> observers (signals st' signal) \<noteq> [] \<and>
            payload \<noteq> ''special'' \<and> py_int m payload = Inl ValueError"
    then obtain event_name signal payload where
      m: "(event_name, signal) \<in>
              {(''createworkspace'', signal_workspace_created inst),
               (''destroyworkspace'', signal_workspace_destroyed inst),
               (''workspace'', signal_active_workspace_changed inst)}"
      and l: "line = event_name @ ''>>'' @ payload" and o: "observers (signals st' signal) \<noteq> []"
      and p: "payload \<noteq> ''special''" "py_int m payload = Inl ValueError"
      by blast
    from p have w: "workspace_id m payload = Inl ValueError" by (simp add: workspace_id_def)
    from m l o w show ?thesis
      using split_createworkspace [of payload] split_destroyworkspace [of payload]
        split_workspace [of payload]
      by (auto simp: handle_line_def signal_for_event_def)
  qed
  with assms(1) have all: "handle_lines m run inst (pre @ line # rest) st = Some (st', Some ValueError)"
    by (simp add: handle_lines_append)
  have "watch_loop m es run inst p = Some (p2\<lparr>fx := st'\<rparr>, ValueError)"
    if "socket_wait es p = (p1, None) \<and> socket_read es p1 = (p2, Inr data) \<and>
        fx p2 = st \<and> lines_of data = pre @ line # rest" for es p p1 p2 data
  proof -
    from that all have "watch_body m es run inst p = Some (p2\<lparr>fx := st'\<rparr>, Some ValueError)"
      by (simp add: watch_body_def handle_socket_data_def)
    then show ?thesis by (rule watch_loop_exit)
  qed
  with all show ?thesis by blast
qed

theorem malformed_line_raises_witness:
  "handle_lines 4300 quiet inst1 [''garbage'', ''workspace>>3''] st0 = Some (st0, Some ValueError) \<and>
   handle_lines 4300 quiet inst1 [''workspace>>two'', ''workspace>>3''] st0
     = Some (st0, Some ValueError) \<and>
   watch_loop 4300 script_socket quiet inst1
       \<lparr>fx = st0, sock = [''garbage\<newline>workspace>>3\<newline>''], sock_calls = [Connect]\<rparr>
     = Some (\<lparr>fx = st0, sock = [], sock_calls = [Connect, Wait, Read]\<rparr>, ValueError)"
proof -
  let ?p = "\<lparr>fx = st0, sock = [''garbage\<newline>workspace>>3\<newline>''], sock_calls = [Connect]\<rparr>
              :: (nat, nat, string, nat, string list) process"
  let ?p1 = "\<lparr>fx = st0, sock = [''garbage\<newline>workspace>>3\<newline>''], sock_calls = [Connect, Wait]\<rparr>
              :: (nat, nat, string, nat, string list) process"
  let ?p2 = "\<lparr>fx = st0, sock = [], sock_calls = [Connect, Wait, Read]\<rparr>
              :: (nat, nat, string, nat, string list) process"
  have e: "handle_lines 4300 quiet inst1 [] st0 = Some (st0, None)" by simp
  have "find_sub ''>>'' ''garbage'' = None" by simp
  then have g: "\<nexists>a b. ''garbage'' = a @ ''>>'' @ b"
    using find_sub_None_iff [of "''>>''" "''garbage''"] by simp
  have t: "\<exists>event_name signal payload.
            (event_name, signal) \<in>
              {(''createworkspace'', signal_workspace_created inst1),
               (''destroyworkspace'', signal_workspace_destroyed inst1),
               (''workspace'', signal_active_workspace_changed inst1)} \<and>
            ''workspace>>two'' = event_name @ ''>>'' @ payload \<and>
            observers (signals (st0 :: (nat, nat, string, pyval, nat) effects) signal) \<noteq> [] \<and>
            payload \<noteq> ''special'' \<and> py_int 4300 payload = Inl ValueError"
    by (intro exI [of _ "''workspace''"] exI [of _ "signal_active_workspace_changed inst1"]
        exI [of _ "''two''"]) (simp add: inst1_def st0_def sigs1_def eval_int)
  note a = malformed_line_raises [where run = quiet and inst = inst1 and pre = "[]" and st = st0
      and st' = st0 and m = 4300 and line = "''garbage''" and rest = "[''workspace>>3'']",
      OF e disjI1, OF g]
  note b = malformed_line_raises [where run = quiet and inst = inst1 and pre = "[]" and st = st0
      and st' = st0 and m = 4300 and line = "''workspace>>two''" and rest = "[''workspace>>3'']",
      OF e disjI2, OF t]
  have w: "socket_wait script_socket ?p = (?p1, None)" by (simp add: socket_wait_def script_socket_def)
  have r: "socket_read script_socket ?p1 = (?p2, Inr ''garbage\<newline>workspace>>3\<newline>'')"
    by (simp add: socket_read_def script_socket_def)
  have l: "lines_of ''garbage\<newline>workspace>>3\<newline>'' = [] @ ''garbage'' # [''workspace>>3'']"
    by (simp add: lines_of_def py_split.simps)
  have f: "fx ?p2 = st0" by simp
  from a [THEN conjunct2, THEN spec, THEN spec, THEN spec, THEN spec, THEN spec,
      of script_socket ?p ?p1 ?p2 "''garbage\<newline>workspace>>3\<newline>''"] w r l f
  have "watch_loop 4300 script_socket quiet inst1 ?p = Some (?p2\<lparr>fx := st0\<rparr>, ValueError)" by blast
  with a [THEN conjunct1] b [THEN conjunct1] show ?thesis by simp
qed

text \<open>
  Claim C2 as it is written fails: in a chunk whose first line has no separator, or is a
  workspace event with a payload that is no integer, the handler raises \<open>ValueError\<close>,
  the next line of the chunk is not handled (no call is logged), and \<^verbatim>\<open>watch\<close> ends with the
  exception while its peer has a chunk left to send.
\<close>

theorem malformed_line_aborts_watch:
  "handle_socket_data 4300 quiet inst1 ''garbage\<newline>workspace>>3\<newline>'' st0
     = Some (st0, Some ValueError) \<and>
   handle_socket_data 4300 quiet inst1 ''workspace>>two\<newline>workspace>>3\<newline>'' st0
     = Some (st0, Some ValueError) \<and>
   watch 4300 script_socket quiet inst1
       \<lparr>fx = st0, sock = [''garbage\<newline>workspace>>3\<newline>'', ''workspace>>4\<newline>''], sock_calls = []\<rparr>
     = Some (\<lparr>fx = st0, sock = [''workspace>>4\<newline>''], sock_calls = [Connect, Wait, Read, Close]\<rparr>,
             ValueError)"
proof -
  let ?p1 = "\<lparr>fx = st0, sock = [''garbage\<newline>workspace>>3\<newline>'', ''workspace>>4\<newline>''],
               sock_calls = [Connect]\<rparr> :: (nat, nat, string, nat, string list) process"
  let ?p2 = "\<lparr>fx = st0, sock = [''workspace>>4\<newline>''], sock_calls = [Connect, Wait, Read]\<rparr>
              :: (nat, nat, string, nat, string list) process"
  have 1: "handle_socket_data 4300 quiet inst1 ''garbage\<newline>workspace>>3\<newline>'' st0
     = Some (st0 :: (nat, nat, string, pyval, nat) effects, Some ValueError)"
    by (simp add: handle_socket_data_def lines_of_def py_split.simps handle_line_def)
  have 2: "handle_socket_data 4300 quiet inst1 ''workspace>>two\<newline>workspace>>3\<newline>'' st0
     = Some (st0 :: (nat, nat, string, pyval, nat) effects, Some ValueError)"
    using split_workspace [of "''two''"]
    by (simp add: handle_socket_data_def lines_of_def py_split.simps handle_line_def eval_int
        inst1_def st0_def sigs1_def signal_for_event_def)
  have b: "watch_body 4300 script_socket quiet inst1 ?p1 = Some (?p2, Some ValueError)"
    using 1 by (simp add: watch_body_def socket_wait_def socket_read_def script_socket_def)
  have 3: "watch 4300 script_socket quiet inst1
       \<lparr>fx = st0, sock = [''garbage\<newline>workspace>>3\<newline>'', ''workspace>>4\<newline>''], sock_calls = []\<rparr>
     = Some (\<lparr>fx = st0, sock = [''workspace>>4\<newline>''], sock_calls = [Connect, Wait, Read, Close]\<rparr>,
             ValueError)"
    using watch_loop_exit [OF b]
    by (simp add: watch_def socket_connect_def socket_close_def script_socket_def)
  from 1 2 3 show ?thesis by simp
qed

section \<open>Properties of the chunks and of the watch loop\<close>










end
